theory Spec2Isabelle
  imports Main "HOL-Library.AList" "HOL-Library.Word"
begin

section \<open>Data model of the project file synchronisation store\<close>

text \<open>
  The development follows the class \<open>ProjectFilesStore\<close> (module \<open>project-files\<close>), a
  write-behind cache between the in-browser virtual filesystem and the per-project
  storage reached over \<open>/api/projects/files\<close>.

  A JavaScript string is a sequence of UTF-16 code units, and \<open>length\<close>,
  \<open>lastIndexOf\<close> and \<open>substring\<close> count code units: a string is modelled as a list of
  16-bit words. \<open>js\<close> turns a literal of ASCII characters into such a string.
\<close>

type_synonym jsstring = "16 word list"

definition js :: "string \<Rightarrow> jsstring" where
  "js s = map of_char s"

type_synonym path = jsstring

text \<open>\<open>ProjectMetadata\<close>: only the field \<open>id\<close> is read by the store.\<close>

record ProjectMetadata =
  project_id :: jsstring

text \<open>The observable status \<open>projectState\<close>.\<close>

record ProjectState =
  project :: "ProjectMetadata option"
  syncing :: bool
  lastSyncedAt :: "jsstring option"

text \<open>An element of the \<open>files\<close> array of a batch-write request.\<close>

record SyncFile =
  path :: jsstring
  content :: jsstring
  isBinary :: bool

text \<open>
  A directory entry of the virtual filesystem: \<open>{type: 'file', content, isBinary}\<close> or
  \<open>{type: 'folder'}\<close>. The file map is a \<open>Record<string, Dirent | undefined>\<close>; it is kept
  as an association list in the order in which the keys were inserted.
\<close>

datatype dirent = File jsstring bool | Folder

type_synonym FileMap = "(path \<times> dirent option) list"

text \<open>Outcome of an awaited \<open>fetch\<close>: the promise rejects, or a response arrives.\<close>

datatype 'b fetch_result = Rejected | Response bool 'b

text \<open>The requests sent to \<open>/api/projects/files\<close>.\<close>

datatype request =
    BatchWrite jsstring "SyncFile list"
  | Delete jsstring path
  | ListFiles jsstring
  | GetFile jsstring path

datatype error =
    NoProjectSet
  | FailedToSyncFiles
  | FailedToLoad
  | FetchFailed
  | ParentFailed

datatype log_entry =
    LogFailedToLoadFile path
  | LogLoaded nat jsstring
  | LogFailedToLoadProjectFiles
  | LogFailedToSyncDeletion path
  | LogSynced nat "jsstring option"
  | LogFailedToSyncToProject
  | LogFailedToProcessSyncQueue

text \<open>
  The private fields of the store, the file map inherited from \<open>FilesStore\<close>, and the part
  of the environment the store acts on: the interval timers that are running, the pending
  \<open>setTimeout\<close> callbacks, every request sent so far, the calls suspended at
  \<open>await fetch\<close> (each with the batch it sent), and the log.
\<close>

record engine =
  projectId :: "jsstring option"
  syncInterval :: "nat option"
  syncQueue :: "(path \<times> jsstring \<times> bool) list"
  isSyncing :: bool
  projectState :: ProjectState
  files :: FileMap
  timers :: "nat list"
  nextTimer :: nat
  timeouts :: nat
  requests :: "request list"
  awaitingQueue :: "SyncFile list list"
  awaitingSync :: "SyncFile list list"
  logs :: "log_entry list"

definition init :: engine where
  "init = \<lparr> projectId = None, syncInterval = None, syncQueue = [], isSyncing = False,
            projectState = \<lparr> project = None, syncing = False, lastSyncedAt = None \<rparr>,
            files = [], timers = [], nextTimer = 1, timeouts = 0, requests = [],
            awaitingQueue = [], awaitingSync = [], logs = [] \<rparr>"

section \<open>Binary classification\<close>

definition binaryExtensions :: "jsstring list" where
  "binaryExtensions =
     map js [''.jpg'', ''.jpeg'', ''.png'', ''.gif'', ''.pdf'', ''.zip'', ''.exe'', ''.dll'']"

text \<open>
  \<open>toLowerCase\<close> replaces every character by its lower case of the Unicode tables. The
  letters A to Z and the Latin-1 capitals (U+00C0 to U+00DE, without the multiplication
  sign U+00D7) move up by 32. The capital I with a dot above, U+0130, becomes two code
  units, U+0069 and U+0307: the lower-cased string is then longer than the original.
  The tables for the other scripts are not spelled out here, and their code units are
  left as they are; no statement below depends on them.
\<close>

definition toLowerCase_unit :: "16 word \<Rightarrow> 16 word list" where
  "toLowerCase_unit u =
     (if u = 0x130 then [0x69, 0x307]
      else if 0x41 \<le> u \<and> u \<le> 0x5A then [u + 0x20]
      else if 0xC0 \<le> u \<and> u \<le> 0xDE then (if u = 0xD7 then [u] else [u + 0x20])
      else [u])"

definition toLowerCase :: "jsstring \<Rightarrow> jsstring" where
  "toLowerCase s = concat (map toLowerCase_unit s)"

text \<open>\<open>lastIndexOf\<close>: the index of the last occurrence, or -1.\<close>

fun lastIndexOf_scan :: "jsstring \<Rightarrow> 16 word \<Rightarrow> int \<Rightarrow> int \<Rightarrow> int" where
  "lastIndexOf_scan [] c i found = found"
| "lastIndexOf_scan (x # xs) c i found =
     lastIndexOf_scan xs c (i + 1) (if x = c then i else found)"

definition lastIndexOf :: "jsstring \<Rightarrow> 16 word \<Rightarrow> int" where
  "lastIndexOf s c = lastIndexOf_scan s c 0 (- 1)"

text \<open>\<open>substring(start)\<close>: a negative start counts as 0, one beyond the end as the length.\<close>

definition substring :: "jsstring \<Rightarrow> int \<Rightarrow> jsstring" where
  "substring s start = drop (nat (max 0 start)) s"

text \<open>
  \<open>isFileBinary\<close>: the index of the last dot (U+002E) is taken in the path as given and
  the cut is made in the lower-cased path; then the content is searched for the code
  unit 0.
\<close>

definition isFileBinary :: "path \<Rightarrow> jsstring \<Rightarrow> bool" where
  "isFileBinary filePath content' =
     (let ext = substring (toLowerCase filePath) (lastIndexOf filePath 0x2E)
      in if List.member binaryExtensions ext then True
         else List.member content' 0)"

text \<open>
  The classification as the specification words it: the extension of a path is its
  suffix from the last dot on, lower-cased, when the path has a dot; a path is binary if
  that extension is one of the known ones or the content holds a null byte.
\<close>

definition spec_extension :: "path \<Rightarrow> jsstring option" where
  "spec_extension p =
     (if 0x2E \<in> set p
      then Some (toLowerCase (0x2E # rev (takeWhile (\<lambda>c. c \<noteq> 0x2E) (rev p))))
      else None)"

definition spec_isBinary :: "path \<Rightarrow> jsstring \<Rightarrow> bool" where
  "spec_isBinary p c =
     ((case spec_extension p of None \<Rightarrow> False | Some e \<Rightarrow> e \<in> set binaryExtensions)
      \<or> 0 \<in> set c)"

section \<open>The virtual filesystem of the base class\<close>

text \<open>What the awaited call into the base class did: it threw, or it completed.\<close>

datatype super_result = Threw | Completed

text \<open>
  Modelled from the spec: the base class \<open>FilesStore\<close> (module \<open>./files\<close>) is not among
  the sources. Its \<open>write(path, content)\<close> stores the content under the path in the
  virtual filesystem (as a file entry whose binary flag is not set). A call that throws
  leaves the file map as it was.
\<close>

definition super_writeFile :: "path \<Rightarrow> jsstring \<Rightarrow> super_result \<Rightarrow> FileMap \<Rightarrow> error + FileMap" where
  "super_writeFile filePath content' r fs =
     (case r of Threw \<Rightarrow> Inl ParentFailed
      | Completed \<Rightarrow> Inr (AList.update filePath (Some (File content' False)) fs))"

text \<open>
  Modelled from the spec: \<open>remove(path)\<close> of the base class \<open>FilesStore\<close>, which is not
  among the sources, takes the path out of the virtual filesystem.
\<close>

definition super_removeFile :: "path \<Rightarrow> super_result \<Rightarrow> FileMap \<Rightarrow> error + FileMap" where
  "super_removeFile filePath r fs =
     (case r of Threw \<Rightarrow> Inl ParentFailed
      | Completed \<Rightarrow> Inr (AList.delete filePath fs))"

section \<open>The operations of the store\<close>

text \<open>
  Every \<open>async\<close> method is cut at its \<open>await fetch\<close>: the part before it runs in one
  piece, and the part after it (the \<open>_resume\<close> function) runs when the environment
  delivers the outcome of the request. A method returns the new state and the error it
  throws, if any.

  \<open>writeFile\<close> and \<open>removeFile\<close> first await the method of the base class; they are taken
  at the moment that call has finished, with its outcome. The \<open>isFileBinary\<close> awaited by
  \<open>writeFile\<close> does no input or output and runs in the same step.
\<close>

definition startAutoSync :: "engine \<Rightarrow> engine" where
  "startAutoSync s =
     s\<lparr> syncInterval := Some (nextTimer s),
        timers := timers s @ [nextTimer s],
        nextTimer := Suc (nextTimer s) \<rparr>"

definition setProject :: "ProjectMetadata option \<Rightarrow> engine \<Rightarrow> engine" where
  "setProject p s =
     (let s1 = s\<lparr> projectId :=
                    (case p of None \<Rightarrow> None
                     | Some m \<Rightarrow> if project_id m = [] then None else Some (project_id m)),
                  projectState := \<lparr> project = p, syncing = False, lastSyncedAt = None \<rparr> \<rparr>;
          s2 = (case syncInterval s1 of
                  None \<Rightarrow> s1
                | Some h \<Rightarrow> s1\<lparr> timers := removeAll h (timers s1), syncInterval := None \<rparr>)
      in case p of None \<Rightarrow> s2 | Some m \<Rightarrow> startAutoSync s2)"

definition dispose :: "engine \<Rightarrow> engine" where
  "dispose s =
     (case syncInterval s of
        None \<Rightarrow> s
      | Some h \<Rightarrow> s\<lparr> timers := removeAll h (timers s), syncInterval := None \<rparr>)"

text \<open>\<open>Array.from(this.#syncQueue.entries()).map(...)\<close>: the batch of a queue.\<close>

definition snapshot :: "(path \<times> jsstring \<times> bool) list \<Rightarrow> SyncFile list" where
  "snapshot q = map (\<lambda>(p, c, b). \<lparr> path = p, content = c, isBinary = b \<rparr>) q"

text \<open>\<open>#processSyncQueue\<close> up to its \<open>await fetch\<close>.\<close>

definition processSyncQueue :: "engine \<Rightarrow> engine" where
  "processSyncQueue s =
     (case projectId s of
        None \<Rightarrow> s
      | Some pid \<Rightarrow>
          if isSyncing s \<or> syncQueue s = [] then s
          else s\<lparr> isSyncing := True,
                  projectState := (projectState s)\<lparr> syncing := True \<rparr>,
                  syncQueue := [],
                  requests := requests s @ [BatchWrite pid (snapshot (syncQueue s))],
                  awaitingQueue := awaitingQueue s @ [snapshot (syncQueue s)] \<rparr>)"

text \<open>The \<open>forEach\<close> of the failure branch: every file of the batch is \<open>set\<close> again.\<close>

definition requeue :: "SyncFile list \<Rightarrow> (path \<times> jsstring \<times> bool) list \<Rightarrow> (path \<times> jsstring \<times> bool) list" where
  "requeue fs q = fold (\<lambda>f. AList.update (path f) (content f, isBinary f)) fs q"

text \<open>
  \<open>#processSyncQueue\<close> after its \<open>await fetch\<close>, for the call that sent the batch \<open>fs\<close>:
  the branch on \<open>response.ok\<close>, the \<open>catch\<close> block and the \<open>finally\<close> block.
\<close>

definition processSyncQueue_catch :: "engine \<Rightarrow> engine" where
  "processSyncQueue_catch s =
     s\<lparr> logs := logs s @ [LogFailedToProcessSyncQueue],
        projectState := (projectState s)\<lparr> syncing := False \<rparr> \<rparr>"

definition processSyncQueue_finally :: "engine \<Rightarrow> engine" where
  "processSyncQueue_finally s =
     (let s1 = s\<lparr> isSyncing := False \<rparr>
      in if syncQueue s1 \<noteq> [] then s1\<lparr> timeouts := Suc (timeouts s1) \<rparr> else s1)"

definition processSyncQueue_resume :: "SyncFile list \<Rightarrow> unit fetch_result \<Rightarrow> jsstring \<Rightarrow> engine \<Rightarrow> engine" where
  "processSyncQueue_resume fs r now s =
     processSyncQueue_finally
       (case r of
          Rejected \<Rightarrow> processSyncQueue_catch s
        | Response ok u \<Rightarrow>
            if \<not> ok
            then processSyncQueue_catch (s\<lparr> syncQueue := requeue fs (syncQueue s) \<rparr>)
            else s\<lparr> projectState :=
                      (projectState s)\<lparr> syncing := False, lastSyncedAt := Some now \<rparr> \<rparr>)"

text \<open>The callback of \<open>setInterval\<close> in \<open>#startAutoSync\<close>.\<close>

definition tick :: "engine \<Rightarrow> engine" where
  "tick s = (if syncQueue s \<noteq> [] then processSyncQueue s else s)"

definition writeFile :: "path \<Rightarrow> jsstring \<Rightarrow> super_result \<Rightarrow> engine \<Rightarrow> engine \<times> error option" where
  "writeFile filePath content' r s =
     (case super_writeFile filePath content' r (files s) of
        Inl e \<Rightarrow> (s, Some e)
      | Inr fs \<Rightarrow>
          (let s1 = s\<lparr> files := fs \<rparr>
           in case projectId s1 of
                None \<Rightarrow> (s1, None)
              | Some pid \<Rightarrow>
                  (processSyncQueue
                     (s1\<lparr> syncQueue :=
                            AList.update filePath (content', isFileBinary filePath content')
                              (syncQueue s1) \<rparr>),
                   None)))"

text \<open>
  \<open>removeFile\<close>: the continuation after its \<open>fetch\<close> only logs a rejected request, so the
  outcome of the request is taken with the call.
\<close>

definition removeFile :: "path \<Rightarrow> super_result \<Rightarrow> unit fetch_result \<Rightarrow> engine \<Rightarrow> engine \<times> error option" where
  "removeFile filePath r net s =
     (case super_removeFile filePath r (files s) of
        Inl e \<Rightarrow> (s, Some e)
      | Inr fs \<Rightarrow>
          (let s1 = s\<lparr> files := fs \<rparr>
           in case projectId s1 of
                None \<Rightarrow> (s1, None)
              | Some pid \<Rightarrow>
                  (let s2 = s1\<lparr> requests := requests s1 @ [Delete pid filePath] \<rparr>
                   in case net of
                        Rejected \<Rightarrow> (s2\<lparr> logs := logs s2 @ [LogFailedToSyncDeletion filePath] \<rparr>, None)
                      | Response ok u \<Rightarrow> (s2, None))))"

text \<open>
  \<open>Object.entries\<close> lists first the keys that are array indices (the decimal numeral,
  without leading zeros, of a number below 4294967295) in ascending numeric order, then
  the other keys in the order of their insertion.
\<close>

fun decimalValue :: "jsstring \<Rightarrow> int \<Rightarrow> int" where
  "decimalValue [] n = n"
| "decimalValue (u # us) n = decimalValue us (10 * n + uint (u - 0x30))"

definition arrayIndex :: "jsstring \<Rightarrow> int option" where
  "arrayIndex k =
     (case k of
        [] \<Rightarrow> None
      | u # us \<Rightarrow>
          if list_all (\<lambda>d. 0x30 \<le> d \<and> d \<le> 0x39) k
             \<and> (if u = 0x30 then us = [] else True)
             \<and> decimalValue k 0 < 4294967295
          then Some (decimalValue k 0) else None)"

definition entryIndex :: "path \<times> dirent option \<Rightarrow> int" where
  "entryIndex e = (case arrayIndex (fst e) of None \<Rightarrow> 0 | Some n \<Rightarrow> n)"

definition Object_entries :: "FileMap \<Rightarrow> (path \<times> dirent option) list" where
  "Object_entries fm =
     sort_key entryIndex (filter (\<lambda>e. arrayIndex (fst e) \<noteq> None) fm)
     @ filter (\<lambda>e. arrayIndex (fst e) = None) fm"

text \<open>The loop of \<open>syncToProject\<close> over the entries of the file map.\<close>

fun filesToSync :: "FileMap \<Rightarrow> SyncFile list" where
  "filesToSync [] = []"
| "filesToSync ((p, Some (File c b)) # fs) =
     \<lparr> path = p, content = c, isBinary = b \<rparr> # filesToSync fs"
| "filesToSync ((p, d) # fs) = filesToSync fs"

text \<open>\<open>syncToProject\<close> up to its \<open>await fetch\<close> (or to its end, when there is no file).\<close>

definition syncToProject :: "jsstring \<Rightarrow> engine \<Rightarrow> engine \<times> error option" where
  "syncToProject now s =
     (case projectId s of
        None \<Rightarrow> (s, Some NoProjectSet)
      | Some pid \<Rightarrow>
          (let s1 = s\<lparr> projectState := (projectState s)\<lparr> syncing := True \<rparr> \<rparr>;
               fs = filesToSync (Object_entries (files s1))
           in if fs \<noteq> []
              then (s1\<lparr> requests := requests s1 @ [BatchWrite pid fs],
                        awaitingSync := awaitingSync s1 @ [fs] \<rparr>, None)
              else (s1\<lparr> projectState :=
                          (projectState s1)\<lparr> syncing := False, lastSyncedAt := Some now \<rparr> \<rparr>,
                    None)))"

text \<open>\<open>syncToProject\<close> after its \<open>await fetch\<close>, for the call that sent the batch \<open>fs\<close>.\<close>

definition syncToProject_catch :: "error \<Rightarrow> engine \<Rightarrow> engine \<times> error option" where
  "syncToProject_catch e s =
     (s\<lparr> logs := logs s @ [LogFailedToSyncToProject],
         projectState := (projectState s)\<lparr> syncing := False \<rparr> \<rparr>, Some e)"

definition syncToProject_resume :: "SyncFile list \<Rightarrow> unit fetch_result \<Rightarrow> jsstring \<Rightarrow> engine \<Rightarrow> engine \<times> error option" where
  "syncToProject_resume fs r now s =
     (case r of
        Rejected \<Rightarrow> syncToProject_catch FetchFailed s
      | Response ok u \<Rightarrow>
          if \<not> ok then syncToProject_catch FailedToSyncFiles s
          else (s\<lparr> logs := logs s @ [LogSynced (length fs) (projectId s)],
                   projectState :=
                     (projectState s)\<lparr> syncing := False, lastSyncedAt := Some now \<rparr> \<rparr>,
                None))"

section \<open>Loading the files of a project\<close>

text \<open>
  What the environment answers for one listed path: the outcome of the request for the
  file (the body is absent when reading the text of the response fails) and the outcome
  of the write into the base class.
\<close>

type_synonym file_answer = "jsstring option fetch_result \<times> super_result"

text \<open>One round of the \<open>for\<close> loop of \<open>loadProjectFiles\<close>, with its \<open>try\<close> and \<open>catch\<close>.\<close>

definition loadFile :: "jsstring \<Rightarrow> path \<Rightarrow> file_answer \<Rightarrow> engine \<Rightarrow> engine" where
  "loadFile pid filePath a s =
     (let s1 = s\<lparr> requests := requests s @ [GetFile pid filePath] \<rparr>
      in case fst a of
           Rejected \<Rightarrow> s1\<lparr> logs := logs s1 @ [LogFailedToLoadFile filePath] \<rparr>
         | Response ok body \<Rightarrow>
             if ok then
               (case body of
                  None \<Rightarrow> s1\<lparr> logs := logs s1 @ [LogFailedToLoadFile filePath] \<rparr>
                | Some content' \<Rightarrow>
                    (case writeFile filePath content' (snd a) s1 of
                       (s2, None) \<Rightarrow> s2
                     | (s2, Some e) \<Rightarrow> s2\<lparr> logs := logs s2 @ [LogFailedToLoadFile filePath] \<rparr>))
             else s1)"

text \<open>The loop; \<open>env i\<close> is the answer of the environment in round \<open>i\<close>.\<close>

fun loadFiles :: "jsstring \<Rightarrow> (nat \<Rightarrow> file_answer) \<Rightarrow> nat \<Rightarrow> path list \<Rightarrow> engine \<Rightarrow> engine" where
  "loadFiles pid env i [] s = s"
| "loadFiles pid env i (p # ps) s = loadFiles pid env (Suc i) ps (loadFile pid p (env i) s)"

text \<open>
  \<open>loadProjectFiles\<close>, run to its end without another event in between. The body of the
  listing is absent when it is not JSON or has no list \<open>files\<close>.
\<close>

definition loadProjectFiles ::
  "jsstring \<Rightarrow> path list option fetch_result \<Rightarrow> (nat \<Rightarrow> file_answer) \<Rightarrow> engine \<Rightarrow> engine \<times> error option" where
  "loadProjectFiles pid listing env s =
     (let s1 = s\<lparr> requests := requests s @ [ListFiles pid] \<rparr>;
          failed = (\<lambda>e. (s1\<lparr> logs := logs s1 @ [LogFailedToLoadProjectFiles] \<rparr>, Some e))
      in case listing of
           Rejected \<Rightarrow> failed FetchFailed
         | Response ok data \<Rightarrow>
             (case data of
                None \<Rightarrow> failed FailedToLoad
              | Some fs \<Rightarrow>
                  if \<not> ok then failed FailedToLoad
                  else (let s2 = loadFiles pid env 0 fs s1
                        in (s2\<lparr> logs := logs s2 @ [LogLoaded (length fs) pid] \<rparr>, None))))"

section \<open>Runs of the store\<close>

text \<open>
  The events of a run: the calls of the public methods, the outcome of an outstanding
  batch request arriving (for the suspended call at a position of the waiting list), an
  interval timer firing, and a \<open>setTimeout\<close> callback firing.
\<close>

datatype event =
    SetProject "ProjectMetadata option"
  | LoadProjectFiles jsstring "path list option fetch_result" "nat \<Rightarrow> file_answer"
  | WriteFile path jsstring super_result
  | RemoveFile path super_result "unit fetch_result"
  | SyncToProject jsstring
  | Dispose
  | QueueResponse nat "unit fetch_result" jsstring
  | SyncResponse nat "unit fetch_result" jsstring
  | Tick nat
  | Timeout

definition remove_nth :: "nat \<Rightarrow> 'a list \<Rightarrow> 'a list" where
  "remove_nth i xs = take i xs @ drop (Suc i) xs"

text \<open>One event; \<open>None\<close> when the event cannot happen in the state.\<close>

fun step :: "event \<Rightarrow> engine \<Rightarrow> engine option" where
  "step (SetProject p) s = Some (setProject p s)"
| "step (LoadProjectFiles pid listing env) s = Some (fst (loadProjectFiles pid listing env s))"
| "step (WriteFile p c r) s = Some (fst (writeFile p c r s))"
| "step (RemoveFile p r net) s = Some (fst (removeFile p r net s))"
| "step (SyncToProject now) s = Some (fst (syncToProject now s))"
| "step Dispose s = Some (dispose s)"
| "step (QueueResponse i r now) s =
     (if i < length (awaitingQueue s)
      then Some (processSyncQueue_resume (awaitingQueue s ! i) r now
                   (s\<lparr> awaitingQueue := remove_nth i (awaitingQueue s) \<rparr>))
      else None)"
| "step (SyncResponse i r now) s =
     (if i < length (awaitingSync s)
      then Some (fst (syncToProject_resume (awaitingSync s ! i) r now
                        (s\<lparr> awaitingSync := remove_nth i (awaitingSync s) \<rparr>)))
      else None)"
| "step (Tick h) s = (if h \<in> set (timers s) then Some (tick s) else None)"
| "step Timeout s =
     (if 0 < timeouts s then Some (processSyncQueue (s\<lparr> timeouts := timeouts s - 1 \<rparr>)) else None)"

fun exec :: "event list \<Rightarrow> engine \<Rightarrow> engine option" where
  "exec [] s = Some s"
| "exec (e # es) s = (case step e s of None \<Rightarrow> None | Some s' \<Rightarrow> exec es s')"

text \<open>The batch-write requests that are outstanding.\<close>

definition outstanding :: "engine \<Rightarrow> nat" where
  "outstanding s = length (awaitingQueue s) + length (awaitingSync s)"

text \<open>A batch request has failed when the promise rejects or the response is not ok.\<close>

definition failed :: "unit fetch_result \<Rightarrow> bool" where
  "failed r = (case r of Rejected \<Rightarrow> True | Response ok u \<Rightarrow> \<not> ok)"

section \<open>The outcome of a load, read off the answers\<close>





section \<open>An invariant of the runs\<close>

text \<open>
  At most one \<open>#processSyncQueue\<close> call is suspended, and one is exactly when the guard
  \<open>#isSyncing\<close> is set; the queue has one entry per path; the only interval timer running
  is the one whose handle the store holds, and handles are never reused.
\<close>

definition inv :: "engine \<Rightarrow> bool" where
  "inv s = (length (awaitingQueue s) = (if isSyncing s then 1 else 0)
            \<and> distinct (map fst (syncQueue s))
            \<and> timers s = (case syncInterval s of None \<Rightarrow> [] | Some h \<Rightarrow> [h])
            \<and> (\<forall>h \<in> set (timers s). h < nextTimer s))"

section \<open>Concrete projects, states and answers\<close>

definition projectA :: ProjectMetadata where
  "projectA = \<lparr> project_id = js ''A'' \<rparr>"

definition projectB :: ProjectMetadata where
  "projectB = \<lparr> project_id = js ''B'' \<rparr>"

text \<open>The store bound to project A while the batch of a first write is outstanding.\<close>

definition bound_syncing :: engine where
  "bound_syncing =
     \<lparr> projectId = Some (js ''A''), syncInterval = Some 1, syncQueue = [], isSyncing = True,
       projectState = \<lparr> project = Some projectA, syncing = True, lastSyncedAt = None \<rparr>,
       files = [(js ''/x.txt'', Some (File (js ''0'') False))],
       timers = [1], nextTimer = 2, timeouts = 0,
       requests = [BatchWrite (js ''A'') [\<lparr> path = js ''/x.txt'', content = js ''0'', isBinary = False \<rparr>]],
       awaitingQueue = [[\<lparr> path = js ''/x.txt'', content = js ''0'', isBinary = False \<rparr>]],
       awaitingSync = [], logs = [] \<rparr>"

text \<open>The same store after a second write, which waits in the queue.\<close>

definition bound_queued :: engine where
  "bound_queued = fst (writeFile (js ''/a.txt'') (js ''1'') Completed bound_syncing)"

text \<open>A path with the capital I with a dot above (U+0130) in a directory name.\<close>

definition dotted_I_path :: path where
  "dotted_I_path = js ''/'' @ [0x130] @ js ''/a.png''"


section \<open>Lemmas on the queue\<close>

lemma Object_entries_order:
  "map fst (Object_entries [(js ''/b'', None), (js ''10'', None), (js ''2'', None), (js ''01'', None)])
     = [js ''2'', js ''10'', js ''/b'', js ''01'']"
  by code_simp

lemma distinct_requeue: "distinct (map fst q) \<Longrightarrow> distinct (map fst (requeue fs q))"
  unfolding requeue_def by (induction fs arbitrary: q) (simp_all add: distinct_update)

lemma processSyncQueue_empty: "syncQueue s = [] \<Longrightarrow> processSyncQueue s = s"
  by (simp add: processSyncQueue_def split: option.splits)





section \<open>The invariant holds along every run\<close>

lemma inv_init: "inv init"
  by (simp add: inv_def init_def)

lemma inv_setProject: "inv s \<Longrightarrow> inv (setProject p s)"
  by (auto simp: inv_def setProject_def startAutoSync_def Let_def split: option.splits)

lemma inv_dispose: "inv s \<Longrightarrow> inv (dispose s)"
  by (auto simp: inv_def dispose_def split: option.splits)

lemma inv_processSyncQueue: "inv s \<Longrightarrow> inv (processSyncQueue s)"
  by (auto simp: inv_def processSyncQueue_def split: option.splits)

lemma inv_writeFile: "inv s \<Longrightarrow> inv (fst (writeFile p c r s))"
proof -
  assume i: "inv s"
  have "inv (s\<lparr> files := fs \<rparr>)" for fs using i by (simp add: inv_def)
  moreover have "inv (s\<lparr> files := fs, syncQueue := AList.update p v (syncQueue s) \<rparr>)" for fs v
    using i by (simp add: inv_def distinct_update)
  ultimately show ?thesis using i
    by (auto simp: writeFile_def Let_def intro!: inv_processSyncQueue
             split: sum.splits option.splits)
qed

lemma inv_removeFile: "inv s \<Longrightarrow> inv (fst (removeFile p r net s))"
  by (auto simp: inv_def removeFile_def Let_def
           split: sum.splits option.splits fetch_result.splits)

lemma inv_syncToProject: "inv s \<Longrightarrow> inv (fst (syncToProject now s))"
  by (auto simp: inv_def syncToProject_def Let_def split: option.splits)

lemma inv_syncToProject_resume:
  "inv s \<Longrightarrow> inv (fst (syncToProject_resume fs r now (s\<lparr> awaitingSync := w \<rparr>)))"
  by (auto simp: inv_def syncToProject_resume_def syncToProject_catch_def
           split: fetch_result.splits)

lemma inv_processSyncQueue_resume:
  assumes "inv s" "i < length (awaitingQueue s)"
  shows "inv (processSyncQueue_resume fs r now
                (s\<lparr> awaitingQueue := remove_nth i (awaitingQueue s) \<rparr>))"
proof -
  from assms have l: "length (awaitingQueue s) = 1" and i0: "i = 0"
    by (auto simp: inv_def split: if_splits)
  then have e: "remove_nth i (awaitingQueue s) = []"
    by (cases "awaitingQueue s") (auto simp: remove_nth_def)
  show ?thesis using assms(1) unfolding e
    by (auto simp: inv_def processSyncQueue_resume_def processSyncQueue_finally_def
                   processSyncQueue_catch_def Let_def distinct_requeue
             split: fetch_result.splits)
qed

lemma inv_tick: "inv s \<Longrightarrow> inv (tick s)"
  by (simp add: tick_def inv_processSyncQueue)

lemma inv_loadFile: "inv s \<Longrightarrow> inv (loadFile pid p a s)"
proof -
  assume i: "inv s"
  have r: "inv (s\<lparr> requests := rq \<rparr>)" for rq using i by (simp add: inv_def)
  have l: "inv t \<Longrightarrow> inv (t\<lparr> logs := lg \<rparr>)" for t lg by (simp add: inv_def)
  have w: "inv (fst (writeFile p c (snd a) (s\<lparr> requests := rq \<rparr>)))" for c rq
    using r by (rule inv_writeFile)
  show ?thesis
    unfolding loadFile_def Let_def
    using r l w
    by (auto split: fetch_result.splits option.splits prod.splits) (metis fst_conv)+
qed

lemma inv_loadFiles: "inv s \<Longrightarrow> inv (loadFiles pid env i ps s)"
  by (induction ps arbitrary: i s) (simp_all add: inv_loadFile)

lemma inv_loadProjectFiles: "inv s \<Longrightarrow> inv (fst (loadProjectFiles pid listing env s))"
proof -
  assume i: "inv s"
  have r: "inv (s\<lparr> requests := rq \<rparr>)" for rq using i by (simp add: inv_def)
  have l: "inv t \<Longrightarrow> inv (t\<lparr> logs := lg \<rparr>)" for t lg by (simp add: inv_def)
  show ?thesis
    unfolding loadProjectFiles_def Let_def
    by (auto split: fetch_result.splits option.splits intro!: l inv_loadFiles r)
qed

lemma inv_step: "inv s \<Longrightarrow> step e s = Some s' \<Longrightarrow> inv s'"
proof (cases e)
  case Timeout
  assume i: "inv s" and st: "step e s = Some s'"
  have "inv (s\<lparr> timeouts := n \<rparr>)" for n using i by (simp add: inv_def)
  then show ?thesis using st Timeout by (auto split: if_splits intro: inv_processSyncQueue)
qed (auto simp: inv_setProject inv_dispose inv_writeFile inv_removeFile inv_syncToProject
      inv_syncToProject_resume inv_processSyncQueue_resume inv_tick inv_loadProjectFiles
      split: if_splits)

lemma inv_exec: "inv s \<Longrightarrow> exec es s = Some s' \<Longrightarrow> inv s'"
  by (induction es arbitrary: s) (auto split: option.splits dest: inv_step)

lemma inv_reachable: "exec es init = Some s \<Longrightarrow> inv s"
  using inv_exec [OF inv_init] .

lemma bound_syncing_reachable:
  "exec [SetProject (Some projectA), WriteFile (js ''/x.txt'') (js ''0'') Completed] init = Some bound_syncing"
  by code_simp

lemma bound_queued_reachable:
  "exec [SetProject (Some projectA), WriteFile (js ''/x.txt'') (js ''0'') Completed,
         WriteFile (js ''/a.txt'') (js ''1'') Completed] init = Some bound_queued"
  by code_simp

section \<open>Lemmas on loading\<close>




section \<open>The claims\<close>

subsection \<open>C1: coalescing\<close>

text \<open>
  C1. The store is bound to project A. The first write of \<open>/a.txt\<close>, with content 1,
  is sent at once; the writes with the contents 2 and 3 arrive while that batch is
  outstanding, and the queue holds the one entry \<open>/a.txt = 3\<close>. Then the response to the
  batch arrives and is not ok. The next drain sends \<open>/a.txt = 1\<close> again: the content of
  the last write is in no batch.
\<close>

theorem C1_next_batch_has_stale_content:
  "map_option syncQueue
     (exec [SetProject (Some projectA),
            WriteFile (js ''/a.txt'') (js ''1'') Completed,
            WriteFile (js ''/a.txt'') (js ''2'') Completed,
            WriteFile (js ''/a.txt'') (js ''3'') Completed] init)
   = Some [(js ''/a.txt'', js ''3'', False)]
   \<and> map_option requests
     (exec [SetProject (Some projectA),
            WriteFile (js ''/a.txt'') (js ''1'') Completed,
            WriteFile (js ''/a.txt'') (js ''2'') Completed,
            WriteFile (js ''/a.txt'') (js ''3'') Completed,
            QueueResponse 0 (Response False ()) (js ''t1''),
            Timeout] init)
   = Some [BatchWrite (js ''A'') [\<lparr> path = js ''/a.txt'', content = js ''1'', isBinary = False \<rparr>],
           BatchWrite (js ''A'') [\<lparr> path = js ''/a.txt'', content = js ''1'', isBinary = False \<rparr>]]"
  by code_simp

subsection \<open>C2: a failed batch and newer writes\<close>

text \<open>
  C2. The store is bound to project A; the batch with \<open>/a.txt = 1\<close> and \<open>/b.txt = 2\<close> is
  outstanding when \<open>/a.txt = 3\<close> is written; then the response to the batch arrives and
  is not ok. The queue now holds \<open>/a.txt\<close> with the content 1 of the failed batch: the
  newer content 3 has been overwritten.
\<close>

theorem C2_requeue_overwrites_newer_write:
  "map_option syncQueue
     (exec [SetProject (Some projectA),
            WriteFile (js ''/x.txt'') (js ''0'') Completed,
            WriteFile (js ''/a.txt'') (js ''1'') Completed,
            WriteFile (js ''/b.txt'') (js ''2'') Completed,
            QueueResponse 0 (Response True ()) (js ''t1''),
            Timeout,
            WriteFile (js ''/a.txt'') (js ''3'') Completed,
            QueueResponse 0 (Response False ()) (js ''t2'')] init)
   = Some [(js ''/a.txt'', js ''1'', False), (js ''/b.txt'', js ''2'', False)]"
  by code_simp

subsection \<open>C3: rebinding\<close>

text \<open>
  The statement of C3 fails: a write that waits in the queue when the store is rebound
  from project A to project B is still in the queue after the rebind, and the next drain
  sends it in a batch for project B.
\<close>

theorem C3_queue_survives_rebind:
  "map_option syncQueue
     (exec [SetProject (Some projectA),
            WriteFile (js ''/x.txt'') (js ''0'') Completed,
            WriteFile (js ''/a.txt'') (js ''1'') Completed,
            SetProject (Some projectB)] init)
   = Some [(js ''/a.txt'', js ''1'', False)]
   \<and> map_option requests
     (exec [SetProject (Some projectA),
            WriteFile (js ''/x.txt'') (js ''0'') Completed,
            WriteFile (js ''/a.txt'') (js ''1'') Completed,
            SetProject (Some projectB),
            QueueResponse 0 (Response True ()) (js ''t1''),
            Timeout] init)
   = Some [BatchWrite (js ''A'') [\<lparr> path = js ''/x.txt'', content = js ''0'', isBinary = False \<rparr>],
           BatchWrite (js ''B'') [\<lparr> path = js ''/a.txt'', content = js ''1'', isBinary = False \<rparr>]]"
  by code_simp

text \<open>
  C3, amended. In every state of a run, \<open>setProject\<close> leaves the pending queue as it is
  and sends nothing (the queue is neither flushed nor discarded), keeps the suspended
  calls and the pending \<open>setTimeout\<close> callbacks, resets the observable status, and stops
  the periodic tick of the previous binding: the only timer running afterwards is the new
  one, started when the new project is not null, and the old handle never fires again.
\<close>

theorem C3_rebind_keeps_queue_stops_tick:
  "exec es init = Some s \<Longrightarrow>
     syncQueue (setProject p s) = syncQueue s
     \<and> requests (setProject p s) = requests s
     \<and> awaitingQueue (setProject p s) = awaitingQueue s
     \<and> timeouts (setProject p s) = timeouts s
     \<and> projectState (setProject p s) = \<lparr> project = p, syncing = False, lastSyncedAt = None \<rparr>
     \<and> timers (setProject p s) = (case p of None \<Rightarrow> [] | Some m \<Rightarrow> [nextTimer s])
     \<and> (\<forall>h. syncInterval s = Some h \<longrightarrow> step (Tick h) (setProject p s) = None)"
  using inv_reachable [of es s]
  by (auto simp: inv_def setProject_def startAutoSync_def Let_def split: option.splits)

theorem C3_rebind_keeps_queue_stops_tick_witness:
  "exec [SetProject (Some projectA), WriteFile (js ''/x.txt'') (js ''0'') Completed,
         WriteFile (js ''/a.txt'') (js ''1'') Completed] init = Some bound_queued
   \<and> syncInterval bound_queued = Some 1
   \<and> syncQueue (setProject (Some projectB) bound_queued) = syncQueue bound_queued
   \<and> requests (setProject (Some projectB) bound_queued) = requests bound_queued
   \<and> step (Tick 1) (setProject (Some projectB) bound_queued) = None"
proof -
  have h: "syncInterval bound_queued = Some 1" by code_simp
  from C3_rebind_keeps_queue_stops_tick [OF bound_queued_reachable, of "Some projectB"]
  show ?thesis using h bound_queued_reachable by blast
qed

subsection \<open>C4: single flight\<close>

text \<open>
  The statement of C4 fails: with the store bound to project A, a write starts a batch
  request, and a \<open>syncToProject\<close> call made while that request is outstanding starts a
  second one, with the observable flag \<open>syncing\<close> set.
\<close>

theorem C4_two_requests_outstanding:
  "map_option outstanding
     (exec [SetProject (Some projectA),
            WriteFile (js ''/x.txt'') (js ''0'') Completed,
            SyncToProject (js ''t0'')] init) = Some 2
   \<and> map_option (syncing \<circ> projectState)
     (exec [SetProject (Some projectA),
            WriteFile (js ''/x.txt'') (js ''0'') Completed,
            SyncToProject (js ''t0'')] init) = Some True"
  by code_simp

text \<open>
  C4, amended. In every state of a run at most one batch request of the queue (one
  \<open>#processSyncQueue\<close> call) is outstanding, and the guard \<open>#isSyncing\<close> is set exactly
  while one is. The requests of \<open>syncToProject\<close> calls are not counted: they pass no guard.
\<close>

theorem C4_queue_single_flight:
  "exec es init = Some s \<Longrightarrow>
     length (awaitingQueue s) \<le> 1 \<and> (isSyncing s \<longleftrightarrow> length (awaitingQueue s) = 1)"
  using inv_reachable [of es s] by (auto simp: inv_def split: if_splits)

theorem C4_queue_single_flight_witness:
  "exec [SetProject (Some projectA), WriteFile (js ''/x.txt'') (js ''0'') Completed] init = Some bound_syncing
   \<and> length (awaitingQueue bound_syncing) \<le> 1
   \<and> (isSyncing bound_syncing \<longleftrightarrow> length (awaitingQueue bound_syncing) = 1)"
  using C4_queue_single_flight [OF bound_syncing_reachable] bound_syncing_reachable by blast

subsection \<open>C5: a failed batch of the queue\<close>

text \<open>
  C5. The store is bound to project A and the batch with \<open>/a.txt = 1\<close> is outstanding when
  its request rejects (a network error). The failure is logged and nothing is thrown, but
  the queue stays empty and no retry is scheduled: the write is not requeued.
\<close>

theorem C5_rejected_request_drops_batch:
  "map_option syncQueue
     (exec [SetProject (Some projectA),
            WriteFile (js ''/a.txt'') (js ''1'') Completed,
            QueueResponse 0 Rejected (js ''t1'')] init) = Some []
   \<and> map_option timeouts
     (exec [SetProject (Some projectA),
            WriteFile (js ''/a.txt'') (js ''1'') Completed,
            QueueResponse 0 Rejected (js ''t1'')] init) = Some 0
   \<and> map_option logs
     (exec [SetProject (Some projectA),
            WriteFile (js ''/a.txt'') (js ''1'') Completed,
            QueueResponse 0 Rejected (js ''t1'')] init) = Some [LogFailedToProcessSyncQueue]"
  by code_simp

subsection \<open>C6: the empty queue\<close>

text \<open>
  C6. With an empty queue, the callback of the periodic tick and \<open>#processSyncQueue\<close>
  itself leave the whole state as it is: no request is sent and the observable status
  does not change.
\<close>

theorem C6_empty_queue_short_circuit:
  "syncQueue s = [] \<Longrightarrow> tick s = s \<and> processSyncQueue s = s"
  by (simp add: tick_def processSyncQueue_empty)

theorem C6_empty_queue_short_circuit_witness:
  "syncQueue init = [] \<and> tick init = init \<and> processSyncQueue init = init"
proof -
  have h: "syncQueue init = []" by (simp add: init_def)
  from C6_empty_queue_short_circuit [OF h] show ?thesis using h by blast
qed

subsection \<open>C7: the explicit flush\<close>

text \<open>
  C7. Without a bound project \<open>syncToProject\<close> throws and leaves the whole state as it
  is: no request is sent and the status is not touched. The call never changes the file
  map. When the batch request of a call fails (the request rejects or the response is not
  ok), the call throws, sends nothing more, clears the flag \<open>syncing\<close> and leaves the
  file map as it is.
\<close>

theorem C7_explicit_flush_contract:
  "(projectId s = None \<longrightarrow> syncToProject now s = (s, Some NoProjectSet))
   \<and> files (fst (syncToProject now s)) = files s
   \<and> (failed r \<longrightarrow>
        snd (syncToProject_resume fs r now' t) \<noteq> None
        \<and> files (fst (syncToProject_resume fs r now' t)) = files t
        \<and> requests (fst (syncToProject_resume fs r now' t)) = requests t
        \<and> \<not> syncing (projectState (fst (syncToProject_resume fs r now' t))))"
  by (auto simp: syncToProject_def syncToProject_resume_def syncToProject_catch_def failed_def
                 Let_def
           split: option.splits fetch_result.splits)

theorem C7_explicit_flush_contract_witness:
  "projectId init = None \<and> syncToProject (js ''t0'') init = (init, Some NoProjectSet)
   \<and> failed (Response False ())
   \<and> snd (syncToProject_resume [] (Response False ()) (js ''t1'') bound_syncing) \<noteq> None
   \<and> files (fst (syncToProject_resume [] (Response False ()) (js ''t1'') bound_syncing))
       = files bound_syncing"
proof -
  have h1: "projectId init = None" by (simp add: init_def)
  have h2: "failed (Response False ())" by (simp add: failed_def)
  from C7_explicit_flush_contract [of init "js ''t0''" "Response False ()" "[]" "js ''t1''" bound_syncing]
  show ?thesis using h1 h2 by blast
qed

subsection \<open>C8: binary classification\<close>

text \<open>
  C8. The path \<open>/I/a.png\<close>, with the capital I with a dot above (U+0130) for the I, has
  the extension \<open>.png\<close>, one of the known binary extensions. Its last dot is at index 4,
  but the lower-cased path is one code unit longer, so the cut at index 4 gives \<open>a.png\<close>:
  for a content without a null byte \<open>isFileBinary\<close> answers false, and the write puts
  the path into the batch with the flag false.
\<close>

theorem C8_dotted_I_path_not_binary:
  "spec_extension dotted_I_path = Some (js ''.png'')
   \<and> spec_isBinary dotted_I_path (js ''x'')
   \<and> substring (toLowerCase dotted_I_path) (lastIndexOf dotted_I_path 0x2E) = js ''a.png''
   \<and> \<not> isFileBinary dotted_I_path (js ''x'')
   \<and> map_option requests
         (exec [SetProject (Some projectA), WriteFile dotted_I_path (js ''x'') Completed] init)
       = Some [BatchWrite (js ''A'')
                 [\<lparr> path = dotted_I_path, content = js ''x'', isBinary = False \<rparr>]]"
  by code_simp

subsection \<open>C9: loading the files of a project\<close>




subsection \<open>C10: writes without a bound project\<close>

text \<open>
  C10. While no project is bound, \<open>writeFile\<close> and \<open>removeFile\<close> do what the base class
  does to the file map and nothing else: the queue and the list of requests sent stay as
  they are, and so does every other field.
\<close>

theorem C10_unbound_writes_bypass_sync:
  "projectId s = None \<Longrightarrow>
     writeFile p c r s =
       (case super_writeFile p c r (files s) of
          Inl e \<Rightarrow> (s, Some e) | Inr fs \<Rightarrow> (s\<lparr> files := fs \<rparr>, None))
     \<and> removeFile p r net s =
       (case super_removeFile p r (files s) of
          Inl e \<Rightarrow> (s, Some e) | Inr fs \<Rightarrow> (s\<lparr> files := fs \<rparr>, None))
     \<and> syncQueue (fst (writeFile p c r s)) = syncQueue s
     \<and> requests (fst (writeFile p c r s)) = requests s
     \<and> syncQueue (fst (removeFile p r net s)) = syncQueue s
     \<and> requests (fst (removeFile p r net s)) = requests s"
  by (auto simp: writeFile_def removeFile_def Let_def split: sum.splits)

theorem C10_unbound_writes_bypass_sync_witness:
  "projectId init = None
   \<and> files (fst (writeFile (js ''/a.txt'') (js ''1'') Completed init)) = [(js ''/a.txt'', Some (File (js ''1'') False))]
   \<and> syncQueue (fst (writeFile (js ''/a.txt'') (js ''1'') Completed init)) = syncQueue init
   \<and> requests (fst (writeFile (js ''/a.txt'') (js ''1'') Completed init)) = requests init
   \<and> requests (fst (removeFile (js ''/a.txt'') Completed Rejected init)) = requests init"
proof -
  have h: "projectId init = None" by (simp add: init_def)
  have f: "files (fst (writeFile (js ''/a.txt'') (js ''1'') Completed init))
             = [(js ''/a.txt'', Some (File (js ''1'') False))]" by code_simp
  from C10_unbound_writes_bypass_sync [OF h, of "js ''/a.txt''" "js ''1''" Completed Rejected]
  show ?thesis using h f by blast
qed

end
